theory Spec2Isabelle
  imports Main
begin

section \<open>Option and setting values of a recipe\<close>

text \<open>
  The recipes under \<^verbatim>\<open>recipes/*/all/conanfile.py\<close> declare their options as a table from
  option name to the list of allowed Python values (\<^verbatim>\<open>True\<close>, \<^verbatim>\<open>False\<close>, \<^verbatim>\<open>None\<close>, integers
  and strings) and read them back through \<^verbatim>\<open>self.options.<name>\<close>.
\<close>

datatype optval = ONone | OBool bool | OInt int | OStr string

text \<open>Decimal rendering of an integer, as \<^verbatim>\<open>str\<close> and f-strings do it.\<close>

definition digit_char :: "nat \<Rightarrow> char" where
  "digit_char d = ''0123456789'' ! (d mod 10)"

fun str_nat :: "nat \<Rightarrow> string" where
  "str_nat n = (if n < 10 then [digit_char n] else str_nat (n div 10) @ [digit_char (n mod 10)])"

declare str_nat.simps [simp del]

definition str_int :: "int \<Rightarrow> string" where
  "str_int i = (if i < 0 then ''-'' @ str_nat (nat (- i)) else str_nat (nat i))"

text \<open>
  \<^verbatim>\<open>str(value)\<close> of an option value, which is what an f-string interpolates and what the
  option object stores and compares.
\<close>

fun str_of :: "optval \<Rightarrow> string" where
  "str_of ONone = ''None''"
| "str_of (OBool True) = ''True''"
| "str_of (OBool False) = ''False''"
| "str_of (OInt i) = str_int i"
| "str_of (OStr s) = s"

text \<open>\<^verbatim>\<open>str.lower()\<close> on ASCII letters.\<close>

definition lower_char :: "char \<Rightarrow> char" where
  "lower_char c =
     (case map_of (zip ''ABCDEFGHIJKLMNOPQRSTUVWXYZ'' ''abcdefghijklmnopqrstuvwxyz'') c of
        Some d \<Rightarrow> d
      | None \<Rightarrow> c)"

definition lower :: "string \<Rightarrow> string" where
  "lower s = map lower_char s"

text \<open>
  Truthiness of an option value (\<^verbatim>\<open>if self.options.x\<close>, \<^verbatim>\<open>not self.options.x\<close>): an
  undefined value is false, any other value is false exactly when its lower-cased string
  is one of \<^verbatim>\<open>"false"\<close>, \<^verbatim>\<open>"none"\<close>, \<^verbatim>\<open>"0"\<close>, \<^verbatim>\<open>"off"\<close>, \<^verbatim>\<open>""\<close>.
\<close>

definition falsey_options :: "string list" where
  "falsey_options = [''false'', ''none'', ''0'', ''off'', '''']"

fun truthy :: "optval \<Rightarrow> bool" where
  "truthy ONone = False"
| "truthy v = (lower (str_of v) \<notin> set falsey_options)"

declare truthy.simps [simp del]

text \<open>
  \<^verbatim>\<open>self.options.x == other\<close>: an undefined value equals only \<^verbatim>\<open>None\<close>; otherwise both sides
  are compared as strings.
\<close>

fun opt_eq :: "optval \<Rightarrow> optval \<Rightarrow> bool" where
  "opt_eq v ONone = (v = ONone)"
| "opt_eq ONone w = False"
| "opt_eq v w = (str_of w = str_of v)"

text \<open>
  Settings are kept by their dotted names (\<^verbatim>\<open>os\<close>, \<^verbatim>\<open>compiler\<close>, \<^verbatim>\<open>compiler.version\<close>, ...);
  a setting without a value is absent from the map.
\<close>

type_synonym settings = "string \<rightharpoonup> string"

text \<open>\<^verbatim>\<open>self.settings.x == "v"\<close> and \<^verbatim>\<open>self.settings.x != "v"\<close>.\<close>

definition setting_eq :: "settings \<Rightarrow> string \<Rightarrow> string \<Rightarrow> bool" where
  "setting_eq s name v = (s name = Some v)"

text \<open>\<^verbatim>\<open>os.path.join\<close> of two parts (POSIX).\<close>

definition os_path_join :: "string \<Rightarrow> string \<Rightarrow> string" where
  "os_path_join a b =
     (if b \<noteq> [] \<and> hd b = CHR ''/'' then b
      else if a = [] \<or> last a = CHR ''/'' then a @ b
      else a @ ''/'' @ b)"

datatype error = ConanInvalidConfiguration string

section \<open>The imagemagick6 recipe\<close>

text \<open>The \<^verbatim>\<open>options\<close> and \<^verbatim>\<open>default_options\<close> tables of \<^verbatim>\<open>ImageMagick6Conan\<close>.\<close>

definition bools :: "optval list" where
  "bools = [OBool True, OBool False]"

definition im_options_decl :: "(string \<times> optval list) list" where
  "im_options_decl =
    [(''shared'', bools),
     (''fPIC'', bools),
     (''hdri'', bools),
     (''quantum_depth'', [OInt 8, OInt 16, OInt 32]),
     (''with_zlib'', bools),
     (''with_bzlib'', bools),
     (''with_lzma'', bools),
     (''with_lcms'', bools),
     (''with_openexr'', bools),
     (''with_heic'', bools),
     (''with_jbig'', bools),
     (''with_jpeg'', [ONone, OStr ''libjpeg'', OStr ''libjpeg-turbo'']),
     (''with_openjp2'', bools),
     (''with_pango'', bools),
     (''with_png'', bools),
     (''with_tiff'', bools),
     (''with_webp'', bools),
     (''with_xml2'', bools),
     (''with_freetype'', bools),
     (''with_djvu'', bools),
     (''utilities'', bools)]"

definition im_default_options :: "(string \<times> optval) list" where
  "im_default_options =
    [(''shared'', OBool False),
     (''fPIC'', OBool True),
     (''hdri'', OBool True),
     (''quantum_depth'', OInt 16),
     (''with_zlib'', OBool True),
     (''with_bzlib'', OBool True),
     (''with_lzma'', OBool True),
     (''with_lcms'', OBool True),
     (''with_openexr'', OBool False),
     (''with_heic'', OBool True),
     (''with_jbig'', OBool True),
     (''with_jpeg'', OStr ''libjpeg''),
     (''with_openjp2'', OBool True),
     (''with_pango'', OBool False),
     (''with_png'', OBool True),
     (''with_tiff'', OBool True),
     (''with_webp'', OBool True),
     (''with_xml2'', OBool False),
     (''with_freetype'', OBool False),
     (''with_djvu'', OBool False),
     (''utilities'', OBool True)]"

text \<open>
  The option values of one configuration. Every declared option has a value; only
  \<^verbatim>\<open>fPIC\<close> can be deleted (by \<^verbatim>\<open>config_options\<close> and \<^verbatim>\<open>configure\<close>).
\<close>

record im_options =
  shared :: optval
  fPIC :: "optval option"
  hdri :: optval
  quantum_depth :: optval
  with_zlib :: optval
  with_bzlib :: optval
  with_lzma :: optval
  with_lcms :: optval
  with_openexr :: optval
  with_heic :: optval
  with_jbig :: optval
  with_jpeg :: optval
  with_openjp2 :: optval
  with_pango :: optval
  with_png :: optval
  with_tiff :: optval
  with_webp :: optval
  with_xml2 :: optval
  with_freetype :: optval
  with_djvu :: optval
  utilities :: optval

text \<open>The name/value pairs of the options that are defined (\<^verbatim>\<open>self.options.items()\<close>).\<close>

definition option_items :: "im_options \<Rightarrow> (string \<times> optval) list" where
  "option_items opts =
    [(''shared'', shared opts)] @
    (case fPIC opts of None \<Rightarrow> [] | Some v \<Rightarrow> [(''fPIC'', v)]) @
    [(''hdri'', hdri opts),
     (''quantum_depth'', quantum_depth opts),
     (''with_zlib'', with_zlib opts),
     (''with_bzlib'', with_bzlib opts),
     (''with_lzma'', with_lzma opts),
     (''with_lcms'', with_lcms opts),
     (''with_openexr'', with_openexr opts),
     (''with_heic'', with_heic opts),
     (''with_jbig'', with_jbig opts),
     (''with_jpeg'', with_jpeg opts),
     (''with_openjp2'', with_openjp2 opts),
     (''with_pango'', with_pango opts),
     (''with_png'', with_png opts),
     (''with_tiff'', with_tiff opts),
     (''with_webp'', with_webp opts),
     (''with_xml2'', with_xml2 opts),
     (''with_freetype'', with_freetype opts),
     (''with_djvu'', with_djvu opts),
     (''utilities'', utilities opts)]"

text \<open>A value is allowed for an option when the option's declared list contains it.\<close>

definition allowed_value :: "(string \<times> optval list) list \<Rightarrow> string \<times> optval \<Rightarrow> bool" where
  "allowed_value decl nv =
     (case map_of decl (fst nv) of None \<Rightarrow> False | Some vs \<Rightarrow> snd nv \<in> set vs)"

text \<open>An option configuration of the recipe: every defined option holds an allowed value.\<close>

definition im_config :: "im_options \<Rightarrow> bool" where
  "im_config opts = list_all (allowed_value im_options_decl) (option_items opts)"

text \<open>
  The recipe object: \<^verbatim>\<open>version_major\<close> is \<^verbatim>\<open>Version(self.version).major\<close> as an f-string
  prints it (\<^verbatim>\<open>"6"\<close> for version \<^verbatim>\<open>"6.9.12-85"\<close>).
\<close>

record im_recipe =
  version_major :: string
  package_folder :: string
  settings :: settings
  options :: im_options

definition modules :: "string list" where
  "modules = [''MagickCore'', ''MagickWand'', ''Magick++'']"

definition libname :: "im_recipe \<Rightarrow> string \<Rightarrow> string" where
  "libname self library_base_name =
     (let im_major = version_major self;
          suffix = (if truthy (hdri (options self)) then ''HDRI'' else '''')
      in library_base_name @ ''-'' @ im_major @ ''.Q'' @ str_of (quantum_depth (options self)) @ suffix)"

subsection \<open>config_options, configure, validate\<close>

definition config_options :: "im_recipe \<Rightarrow> im_recipe" where
  "config_options self =
     (if setting_eq (settings self) ''os'' ''Windows''
      then self\<lparr>options := (options self)\<lparr>fPIC := None\<rparr>\<rparr>
      else self)"

definition configure :: "im_recipe \<Rightarrow> im_recipe" where
  "configure self =
     (if truthy (shared (options self))
      then self\<lparr>options := (options self)\<lparr>fPIC := None\<rparr>\<rparr>
      else self)"

definition windows_message :: string where
  "windows_message =
     ''This recipe currently supports ImageMagick 6 on macOS (and Linux) via Autotools. '' @
     ''Windows build is not supported with this configuration.''"

definition pango_warning :: string where
  "pango_warning =
     ''Building ImageMagick with Pango on macOS might require X11/Quartz or specific setup.''"

definition djvu_warning :: string where
  "djvu_warning =
     ''Conan package for DjVuLibre is not commonly available. '' @
     ''Ensure it's system-installed if this option is True.''"

text \<open>
  \<^verbatim>\<open>validate\<close> either raises or returns; on return the result lists the warnings written to
  \<^verbatim>\<open>self.output\<close>, in order.
\<close>

definition validate :: "im_recipe \<Rightarrow> error + string list" where
  "validate self =
     (if setting_eq (settings self) ''os'' ''Windows''
      then Inl (ConanInvalidConfiguration windows_message)
      else Inr
        ((if truthy (with_pango (options self)) \<and> setting_eq (settings self) ''os'' ''Macos''
          then [pango_warning] else []) @
         (if truthy (with_djvu (options self)) then [djvu_warning] else [])))"

subsection \<open>requirements\<close>

text \<open>
  \<^verbatim>\<open>added_if c xs\<close> is the effect of \<^verbatim>\<open>if c: self.requires(x) ...\<close> on the list of requirements:
  the references \<^verbatim>\<open>xs\<close> are appended when the condition holds.
\<close>

definition added_if :: "bool \<Rightarrow> 'a list \<Rightarrow> 'a list" where
  "added_if c xs = (if c then xs else [])"

definition requirements :: "im_recipe \<Rightarrow> string list" where
  "requirements self =
     (let opts = options self in
      added_if (truthy (with_zlib opts)) [''zlib/1.3.1''] @
      added_if (truthy (with_bzlib opts)) [''bzip2/1.0.8''] @
      added_if (truthy (with_lzma opts)) [''xz_utils/[>=5.4.5 <6]''] @
      added_if (truthy (with_lcms opts)) [''lcms/2.16''] @
      added_if (truthy (with_openexr opts)) [''openexr/3.1.9''] @
      added_if (truthy (with_heic opts)) [''libheif/[>=1.16.2 <2]''] @
      added_if (truthy (with_jbig opts)) [''jbig/20160605''] @
      (if opt_eq (with_jpeg opts) (OStr ''libjpeg'') then [''libjpeg/9e'']
       else if opt_eq (with_jpeg opts) (OStr ''libjpeg-turbo'') then [''libjpeg-turbo/3.0.3'']
       else []) @
      added_if (truthy (with_openjp2 opts)) [''openjpeg/[>=2.5.2 <3]''] @
      added_if (truthy (with_pango opts)) [''pango/1.50.14''] @
      added_if (truthy (with_png opts)) [''libpng/[>=1.6.48 <2]''] @
      added_if (truthy (with_tiff opts)) [''libtiff/[>=4.6.0 <5]'', ''zstd/1.5.7''] @
      added_if (truthy (with_webp opts)) [''libwebp/[>=1.3.2 <2]''] @
      added_if (truthy (with_xml2 opts)) [''libxml2/2.12.7''] @
      added_if (truthy (with_freetype opts)) [''freetype/2.13.2''])"

subsection \<open>generate\<close>

definition yes_no :: "optval \<Rightarrow> string" where
  "yes_no opt_value = (if truthy opt_value then ''yes'' else ''no'')"

text \<open>\<^verbatim>\<open>yes_no(not self.options.shared)\<close>: the argument is a Python \<^verbatim>\<open>bool\<close>.\<close>

definition yes_no_bool :: "bool \<Rightarrow> string" where
  "yes_no_bool b = (if b then ''yes'' else ''no'')"

definition configure_args :: "im_recipe \<Rightarrow> string list" where
  "configure_args self =
     (let opts = options self in
      [''--disable-openmp'',
       ''--disable-opencl'',
       ''--disable-docs'',
       ''--with-perl=no'',
       ''--with-x=no'',
       ''--with-fontconfig='' @ yes_no (with_pango opts),
       ''--without-dps'',
       ''--without-fftw'',
       ''--without-fpx'',
       ''--without-raw'',
       ''--without-wmf'',
       ''--enable-shared='' @ yes_no (shared opts),
       ''--enable-static='' @ yes_no_bool (\<not> truthy (shared opts)),
       ''--enable-hdri='' @ yes_no (hdri opts),
       ''--with-quantum-depth='' @ str_of (quantum_depth opts),
       ''--with-zlib='' @ yes_no (with_zlib opts),
       ''--with-bzlib='' @ yes_no (with_bzlib opts),
       ''--with-lzma='' @ yes_no (with_lzma opts),
       ''--with-lcms='' @ yes_no (with_lcms opts),
       ''--with-openexr='' @ yes_no (with_openexr opts),
       ''--with-heic='' @ yes_no (with_heic opts),
       ''--with-jbig='' @ yes_no (with_jbig opts),
       ''--with-jpeg='' @ yes_no (with_jpeg opts),
       ''--with-openjp2='' @ yes_no (with_openjp2 opts),
       ''--with-pango='' @ yes_no (with_pango opts),
       ''--with-png='' @ yes_no (with_png opts),
       ''--with-tiff='' @ yes_no (with_tiff opts),
       ''--with-webp='' @ yes_no (with_webp opts),
       ''--with-xml='' @ yes_no (with_xml2 opts),
       ''--with-freetype='' @ yes_no (with_freetype opts),
       ''--with-djvu='' @ yes_no (with_djvu opts),
       ''--with-utilities='' @ yes_no (utilities opts)])"

text \<open>
  The \<^verbatim>\<open>AutotoolsToolchain\<close> object as far as \<^verbatim>\<open>generate\<close> changes it; its initial contents
  come from the build helper and are a parameter.
\<close>

record toolchain =
  tc_configure_args :: "string list"
  tc_make_args :: "string list"
  tc_extra_ldflags :: "string list"

definition is_apple_os :: "im_recipe \<Rightarrow> bool" where
  "is_apple_os self =
     (case settings self ''os'' of
        None \<Rightarrow> False
      | Some v \<Rightarrow> v \<in> set [''Macos'', ''iOS'', ''watchOS'', ''tvOS'', ''visionOS''])"

definition generate :: "im_recipe \<Rightarrow> toolchain \<Rightarrow> toolchain" where
  "generate self tc =
     (let tc1 = (if is_apple_os self \<and> truthy (shared (options self))
                 then tc\<lparr>tc_extra_ldflags := tc_extra_ldflags tc @ [''-Wl,-headerpad_max_install_names'']\<rparr>
                 else tc);
          tc2 = tc1\<lparr>tc_make_args := tc_make_args tc1 @ [''V=1'']\<rparr>
      in tc2\<lparr>tc_configure_args := tc_configure_args tc2 @ configure_args self\<rparr>)"

subsection \<open>package_info\<close>

record component =
  libs :: "string list"
  includedirs :: "string list"
  defines_c :: "string list"
  system_libs :: "string list"
  requires :: "string list"
  properties :: "string \<rightharpoonup> string"

record cpp_info =
  components :: "string \<Rightarrow> component"
  cpp_properties :: "string \<rightharpoonup> string"
  runenv_path :: "string list"

text \<open>A component that has not been touched yet, and the \<^verbatim>\<open>cpp_info\<close> a recipe starts from.\<close>

definition new_component :: component where
  "new_component =
     \<lparr>libs = [], includedirs = [''include''], defines_c = [], system_libs = [], requires = [],
      properties = Map.empty\<rparr>"

definition new_cpp_info :: cpp_info where
  "new_cpp_info = \<lparr>components = (\<lambda>_. new_component), cpp_properties = Map.empty, runenv_path = []\<rparr>"

definition on_component :: "string \<Rightarrow> (component \<Rightarrow> component) \<Rightarrow> cpp_info \<Rightarrow> cpp_info" where
  "on_component name f ci = ci\<lparr>components := (components ci)(name := f (components ci name))\<rparr>"

definition set_property :: "string \<Rightarrow> string \<Rightarrow> component \<Rightarrow> component" where
  "set_property k v c = c\<lparr>properties := (properties c)(k \<mapsto> v)\<rparr>"

definition add_requires :: "string list \<Rightarrow> component \<Rightarrow> component" where
  "add_requires rs c = c\<lparr>requires := requires c @ rs\<rparr>"

text \<open>
  The pkg-config name the recipe builds for a module: the three blocks of \<^verbatim>\<open>package_info\<close>
  differ only in the module name.
\<close>

definition pc_config_name :: "im_recipe \<Rightarrow> string \<Rightarrow> string" where
  "pc_config_name self module =
     (let name = module @ ''-'' @ version_major self @ ''.Q'' @ str_of (quantum_depth (options self))
      in if truthy (hdri (options self)) \<and> \<not> setting_eq (settings self) ''os'' ''Windows''
         then name @ ''HDRI'' else name)"

definition package_info :: "im_recipe \<Rightarrow> cpp_info \<Rightarrow> cpp_info" where
  "package_info self ci0 =
     (let opts = options self;
          im_version_major = version_major self;
          imagemagick_include_subdir = os_path_join ''include'' (''ImageMagick-'' @ im_version_major);
          core = on_component ''MagickCore'';
          wand = on_component ''MagickWand'';
          mpp = on_component ''Magick++'';
          steps =
            [core (\<lambda>c. c\<lparr>libs := [libname self ''MagickCore'']\<rparr>),
             core (\<lambda>c. c\<lparr>includedirs := [os_path_join imagemagick_include_subdir ''magick'']\<rparr>),
             core (\<lambda>c. c\<lparr>defines_c := defines_c c @
                [''MAGICKCORE_QUANTUM_DEPTH='' @ str_of (quantum_depth opts),
                 ''MAGICKCORE_HDRI_ENABLE='' @ (if truthy (hdri opts) then ''1'' else ''0''),
                 (if truthy (shared opts) then ''_MAGICKDLL_=1'' else ''_MAGICKLIB_=1'')]\<rparr>),
             core (\<lambda>c. c\<lparr>system_libs := system_libs c @
                added_if (setting_eq (settings self) ''os'' ''Linux'') [''pthread'']\<rparr>),
             core (set_property ''pkg_config_name'' (pc_config_name self ''MagickCore'')),
             wand (\<lambda>c. c\<lparr>libs := [libname self ''MagickWand'']\<rparr>),
             wand (\<lambda>c. c\<lparr>includedirs := [os_path_join imagemagick_include_subdir ''wand'']\<rparr>),
             wand (\<lambda>c. c\<lparr>requires := [''MagickCore'']\<rparr>),
             wand (set_property ''pkg_config_name'' (pc_config_name self ''MagickWand'')),
             mpp (\<lambda>c. c\<lparr>libs := [libname self ''Magick++'']\<rparr>),
             mpp (\<lambda>c. c\<lparr>includedirs :=
                [os_path_join imagemagick_include_subdir ''Magick++'', imagemagick_include_subdir]\<rparr>),
             mpp (\<lambda>c. c\<lparr>requires := [''MagickWand'']\<rparr>),
             mpp (set_property ''pkg_config_name'' (pc_config_name self ''Magick++'')),
             core (add_requires (added_if (truthy (with_zlib opts)) [''zlib::zlib''])),
             core (add_requires (added_if (truthy (with_bzlib opts)) [''bzip2::bzip2''])),
             core (add_requires (added_if (truthy (with_lzma opts)) [''xz_utils::xz_utils''])),
             core (add_requires (added_if (truthy (with_lcms opts)) [''lcms::lcms''])),
             core (add_requires (added_if (truthy (with_openexr opts)) [''openexr::openexr''])),
             core (add_requires (added_if (truthy (with_heic opts)) [''libheif::libheif''])),
             core (add_requires (added_if (truthy (with_jbig opts)) [''jbig::jbig''])),
             core (add_requires
                (if opt_eq (with_jpeg opts) (OStr ''libjpeg'') then [''libjpeg::libjpeg'']
                 else if opt_eq (with_jpeg opts) (OStr ''libjpeg-turbo'')
                   then [''libjpeg-turbo::libjpeg-turbo'']
                 else [])),
             core (add_requires (added_if (truthy (with_openjp2 opts)) [''openjpeg::openjpeg''])),
             core (add_requires (added_if (truthy (with_pango opts)) [''pango::pango''])),
             core (add_requires (added_if (truthy (with_png opts)) [''libpng::libpng''])),
             core (add_requires (added_if (truthy (with_tiff opts)) [''libtiff::libtiff'', ''zstd::zstd''])),
             core (add_requires (added_if (truthy (with_webp opts)) [''libwebp::libwebp''])),
             core (add_requires (added_if (truthy (with_xml2 opts)) [''libxml2::libxml2''])),
             core (add_requires (added_if (truthy (with_freetype opts)) [''freetype::freetype''])),
             (\<lambda>ci. ci\<lparr>runenv_path :=
                added_if (truthy (utilities opts)) [os_path_join (package_folder self) ''bin''] @
                runenv_path ci\<rparr>),
             (\<lambda>ci. ci\<lparr>cpp_properties := (cpp_properties ci)(''cmake_file_name'' \<mapsto> ''ImageMagick'')\<rparr>),
             (\<lambda>ci. ci\<lparr>cpp_properties :=
                (cpp_properties ci)(''cmake_target_name'' \<mapsto> ''ImageMagick::MagickCore'')\<rparr>),
             core (set_property ''cmake_target_name'' ''ImageMagick::MagickCore''),
             wand (set_property ''cmake_target_name'' ''ImageMagick::MagickWand''),
             mpp (set_property ''cmake_target_name'' ''ImageMagick::Magick++'')]
      in foldl (\<lambda>ci step. step ci) ci0 steps)"

subsection \<open>Version ranges of requirements\<close>

text \<open>
  A requirement is written \<^verbatim>\<open>name/version\<close>; the version is either a literal or a range in
  square brackets.
\<close>

definition ref_name :: "string \<Rightarrow> string" where
  "ref_name r = takeWhile (\<lambda>c. c \<noteq> CHR ''/'') r"

definition ref_version :: "string \<Rightarrow> string" where
  "ref_version r = drop 1 (dropWhile (\<lambda>c. c \<noteq> CHR ''/'') r)"

fun split_on :: "char \<Rightarrow> string \<Rightarrow> string list" where
  "split_on d [] = [[]]"
| "split_on d (c # cs) =
     (if c = d then [] # split_on d cs
      else (case split_on d cs of [] \<Rightarrow> [[c]] | p # ps \<Rightarrow> (c # p) # ps))"

definition is_digit :: "char \<Rightarrow> bool" where
  "is_digit c = (c \<in> set ''0123456789'')"

text \<open>A dotted numeric version literal: one or more non-empty groups of digits, separated by dots.\<close>

definition dotted_numeric :: "string \<Rightarrow> bool" where
  "dotted_numeric s = list_all (\<lambda>p. p \<noteq> [] \<and> list_all is_digit p) (split_on (CHR ''.'') s)"

text \<open>
  The form the specification asks of a version range: \<^verbatim>\<open>[>=<lower> <<upper>]\<close> with both
  bounds dotted numeric literals.
\<close>

definition well_formed_range :: "string \<Rightarrow> bool" where
  "well_formed_range r =
     (take 3 r = ''[>='' \<and> r \<noteq> [] \<and> last r = CHR '']'' \<and>
      (case split_on (CHR '' '') (butlast (drop 3 r)) of
         [lo, hi] \<Rightarrow> dotted_numeric lo \<and> take 1 hi = ''<'' \<and> dotted_numeric (drop 1 hi)
       | _ \<Rightarrow> False))"

definition is_range :: "string \<Rightarrow> bool" where
  "is_range v = (take 1 v = ''['')"

definition range_packages :: "string list" where
  "range_packages = [''xz_utils'', ''libheif'', ''openjpeg'', ''libpng'', ''libtiff'', ''libwebp'']"

text \<open>Every reference that occurs in a \<^verbatim>\<open>self.requires\<close> call of the recipe, in source order.\<close>

definition declared_requirements :: "string list" where
  "declared_requirements =
     [''zlib/1.3.1'', ''bzip2/1.0.8'', ''xz_utils/[>=5.4.5 <6]'', ''lcms/2.16'', ''openexr/3.1.9'',
      ''libheif/[>=1.16.2 <2]'', ''jbig/20160605'', ''libjpeg/9e'', ''libjpeg-turbo/3.0.3'',
      ''openjpeg/[>=2.5.2 <3]'', ''pango/1.50.14'', ''libpng/[>=1.6.48 <2]'',
      ''libtiff/[>=4.6.0 <5]'', ''zstd/1.5.7'', ''libwebp/[>=1.3.2 <2]'', ''libxml2/2.12.7'',
      ''freetype/2.13.2'']"

subsection \<open>Concrete configurations\<close>

text \<open>The configuration that \<^verbatim>\<open>default_options\<close> gives.\<close>

definition im_defaults :: im_options where
  "im_defaults =
     \<lparr>shared = OBool False, fPIC = Some (OBool True), hdri = OBool True, quantum_depth = OInt 16,
      with_zlib = OBool True, with_bzlib = OBool True, with_lzma = OBool True,
      with_lcms = OBool True, with_openexr = OBool False, with_heic = OBool True,
      with_jbig = OBool True, with_jpeg = OStr ''libjpeg'', with_openjp2 = OBool True,
      with_pango = OBool False, with_png = OBool True, with_tiff = OBool True,
      with_webp = OBool True, with_xml2 = OBool False, with_freetype = OBool False,
      with_djvu = OBool False, utilities = OBool True\<rparr>"

text \<open>Version 6.9.12-85 with the default options, on Linux and on Windows.\<close>

definition linux_recipe :: im_recipe where
  "linux_recipe =
     \<lparr>version_major = ''6'', package_folder = ''/pkg'', settings = [''os'' \<mapsto> ''Linux''],
      options = im_defaults\<rparr>"

definition windows_recipe :: im_recipe where
  "windows_recipe = linux_recipe\<lparr>settings := [''os'' \<mapsto> ''Windows'']\<rparr>"

text \<open>The Linux recipe with one option changed.\<close>

definition turbo_recipe :: im_recipe where
  "turbo_recipe = linux_recipe\<lparr>options := im_defaults\<lparr>with_jpeg := OStr ''libjpeg-turbo''\<rparr>\<rparr>"

definition no_jpeg_recipe :: im_recipe where
  "no_jpeg_recipe = linux_recipe\<lparr>options := im_defaults\<lparr>with_jpeg := ONone\<rparr>\<rparr>"

definition shared_recipe :: im_recipe where
  "shared_recipe = linux_recipe\<lparr>options := im_defaults\<lparr>shared := OBool True\<rparr>\<rparr>"

subsection \<open>Observations on the generated data\<close>

text \<open>
  The configure arguments \<^verbatim>\<open>generate\<close> hands to the toolchain: what the toolchain's argument
  list holds after \<^verbatim>\<open>generate\<close> beyond the arguments it started with.
\<close>

definition generated_configure_args :: "im_recipe \<Rightarrow> toolchain \<Rightarrow> string list" where
  "generated_configure_args self tc =
     drop (length (tc_configure_args tc)) (tc_configure_args (generate self tc))"

text \<open>The generated configure arguments that set the JPEG flag.\<close>

definition jpeg_argument :: "im_recipe \<Rightarrow> toolchain \<Rightarrow> string list" where
  "jpeg_argument self tc =
     filter (\<lambda>a. take 12 a = ''--with-jpeg='') (generated_configure_args self tc)"

text \<open>The generated configure arguments that set the shared and static flags, in list order.\<close>

definition shared_static_arguments :: "im_recipe \<Rightarrow> toolchain \<Rightarrow> string list" where
  "shared_static_arguments self tc =
     filter (\<lambda>a. take 16 a = ''--enable-shared='' \<or> take 16 a = ''--enable-static='')
       (generated_configure_args self tc)"

text \<open>A toolchain as the build helper hands it to \<^verbatim>\<open>generate\<close>, with arguments of its own.\<close>

definition helper_toolchain :: toolchain where
  "helper_toolchain =
     \<lparr>tc_configure_args = [''--prefix=/'', ''--bindir=${prefix}/bin''],
      tc_make_args = [], tc_extra_ldflags = []\<rparr>"

text \<open>
  What is asked of one requirement: a requirement of one of the range packages carries a
  well-formed range, and no other requirement is written as a range.
\<close>

definition range_ok :: "string \<Rightarrow> bool" where
  "range_ok r =
     ((ref_name r \<in> set range_packages \<longrightarrow> well_formed_range (ref_version r)) \<and>
      (is_range (ref_version r) \<longrightarrow> ref_name r \<in> set range_packages))"

section \<open>The cppcheck recipe\<close>

definition cppcheck_options_decl :: "(string \<times> optval list) list" where
  "cppcheck_options_decl = [(''have_rules'', bools)]"

definition cppcheck_default_options :: "(string \<times> optval) list" where
  "cppcheck_default_options = [(''have_rules'', OBool True)]"

text \<open>
  The recipe reads its option with \<^verbatim>\<open>get_safe\<close>, so the options are kept as the list of the
  name/value pairs that are defined; a missing option reads as \<^verbatim>\<open>None\<close>.
\<close>

type_synonym cppcheck_options = "(string \<times> optval) list"

definition get_safe :: "cppcheck_options \<Rightarrow> string \<Rightarrow> optval" where
  "get_safe opts name = (case map_of opts name of None \<Rightarrow> ONone | Some v \<Rightarrow> v)"

definition cppcheck_config :: "cppcheck_options \<Rightarrow> bool" where
  "cppcheck_config opts = list_all (allowed_value cppcheck_options_decl) opts"

definition cppcheck_requirements :: "cppcheck_options \<Rightarrow> string list" where
  "cppcheck_requirements opts = added_if (truthy (get_safe opts ''have_rules'')) [''pcre/8.45'']"

text \<open>
  \<^verbatim>\<open>self.info\<close>: the information the package identifier is computed from. Besides the
  settings and the options it has a requires part: for every requirement, the reference
  together with the identifier of the dependency's binary. Deleting a setting removes it
  together with its sub-settings.
\<close>

record pkg_info =
  info_settings :: settings
  info_options :: cppcheck_options
  info_requires :: "(string \<times> string) list"

definition under :: "string \<Rightarrow> string \<Rightarrow> bool" where
  "under name k = (k = name \<or> take (length name + 1) k = name @ ''.'')"

definition del_setting :: "string \<Rightarrow> settings \<Rightarrow> settings" where
  "del_setting name s = (\<lambda>k. if under name k then None else s k)"

definition package_id :: "'a pkg_info_scheme \<Rightarrow> 'a pkg_info_scheme" where
  "package_id info =
     (let info1 = info\<lparr>info_settings := del_setting ''compiler'' (info_settings info)\<rparr>
      in info1\<lparr>info_settings := del_setting ''build_type'' (info_settings info1)\<rparr>)"

text \<open>A configuration of the recipe: its settings and its options.\<close>

record cppcheck_recipe =
  cc_settings :: settings
  cc_options :: cppcheck_options

text \<open>
  The identity information as the package manager prepares it before it calls
  \<^verbatim>\<open>package_id\<close>: the settings, the options, and one entry for each requirement the recipe
  declares. A dependency is resolved under the same settings as the recipe; how the
  identifier of its binary depends on them belongs to the dependency, and is the parameter
  \<^verbatim>\<open>dep_id\<close>.
\<close>

definition initial_info :: "(settings \<Rightarrow> string \<Rightarrow> string) \<Rightarrow> cppcheck_recipe \<Rightarrow> pkg_info" where
  "initial_info dep_id self =
     \<lparr>info_settings = cc_settings self,
      info_options = cc_options self,
      info_requires =
        map (\<lambda>r. (r, dep_id (cc_settings self) r)) (cppcheck_requirements (cc_options self))\<rparr>"

text \<open>
  The package identifier is a digest of the identity information left by \<^verbatim>\<open>package_id\<close>; the
  digest function belongs to the package manager and is a parameter.
\<close>

definition package_identifier ::
  "(pkg_info \<Rightarrow> 'h) \<Rightarrow> (settings \<Rightarrow> string \<Rightarrow> string) \<Rightarrow> cppcheck_recipe \<Rightarrow> 'h" where
  "package_identifier digest dep_id self = digest (package_id (initial_info dep_id self))"

text \<open>
  Two configurations differ at most in the compiler and build_type settings (and their
  sub-settings): they have the same options and agree on every other setting.
\<close>

definition same_but_compiler_build_type :: "cppcheck_recipe \<Rightarrow> cppcheck_recipe \<Rightarrow> bool" where
  "same_but_compiler_build_type c1 c2 =
     (cc_options c1 = cc_options c2 \<and>
      (\<forall>k. \<not> under ''compiler'' k \<and> \<not> under ''build_type'' k \<longrightarrow>
         cc_settings c1 k = cc_settings c2 k))"

text \<open>
  A dependency whose binary identifier records the compiler and the build type it was built
  with, as the identifier of a compiled library does.
\<close>

definition setting_text :: "settings \<Rightarrow> string \<Rightarrow> string" where
  "setting_text s name = (case s name of None \<Rightarrow> ''None'' | Some v \<Rightarrow> v)"

definition compiled_dep_id :: "settings \<Rightarrow> string \<Rightarrow> string" where
  "compiled_dep_id s r = setting_text s ''compiler'' @ ''-'' @ setting_text s ''build_type''"

text \<open>The default options under two profiles, and the same profiles with have_rules off.\<close>

definition gcc_release :: cppcheck_recipe where
  "gcc_release =
     \<lparr>cc_settings = [''os'' \<mapsto> ''Linux'', ''arch'' \<mapsto> ''x86_64'', ''compiler'' \<mapsto> ''gcc'',
        ''compiler.version'' \<mapsto> ''13'', ''build_type'' \<mapsto> ''Release''],
      cc_options = [(''have_rules'', OBool True)]\<rparr>"

definition clang_debug :: cppcheck_recipe where
  "clang_debug =
     \<lparr>cc_settings = [''os'' \<mapsto> ''Linux'', ''arch'' \<mapsto> ''x86_64'', ''compiler'' \<mapsto> ''clang'',
        ''compiler.version'' \<mapsto> ''17'', ''compiler.libcxx'' \<mapsto> ''libc++'',
        ''build_type'' \<mapsto> ''Debug''],
      cc_options = [(''have_rules'', OBool True)]\<rparr>"

definition gcc_release_no_rules :: cppcheck_recipe where
  "gcc_release_no_rules = gcc_release\<lparr>cc_options := [(''have_rules'', OBool False)]\<rparr>"

definition clang_debug_no_rules :: cppcheck_recipe where
  "clang_debug_no_rules = clang_debug\<lparr>cc_options := [(''have_rules'', OBool False)]\<rparr>"

section \<open>Basic facts\<close>

lemma str_int_depths: "str_int 8 = ''8''" "str_int 16 = ''16''" "str_int 32 = ''32''"
  by (simp_all add: str_int_def str_nat.simps[of 8] str_nat.simps[of 16] str_nat.simps[of 32]
      str_nat.simps[of "Suc 0"] str_nat.simps[of 3] digit_char_def)

lemma truthy_bool: "truthy (OBool b) = b"
  by (cases b) (simp_all add: truthy.simps lower_def lower_char_def falsey_options_def)

lemma truthy_jpeg: "truthy (OStr ''libjpeg'')" "truthy (OStr ''libjpeg-turbo'')"
  by (simp_all add: truthy.simps lower_def lower_char_def falsey_options_def)

lemma mem_added_if: "x \<in> set (added_if c xs) \<longleftrightarrow> c \<and> x \<in> set xs"
  by (simp add: added_if_def)

text \<open>What a configuration says about the options the claims read.\<close>

lemma im_config_fields:
  assumes "im_config opts"
  shows "hdri opts \<in> set bools" "shared opts \<in> set bools"
    "quantum_depth opts \<in> {OInt 8, OInt 16, OInt 32}"
    "with_jpeg opts \<in> {ONone, OStr ''libjpeg'', OStr ''libjpeg-turbo''}"
  using assms
  by (simp_all add: im_config_def option_items_def allowed_value_def im_options_decl_def
      split: option.splits)

lemma option_items_defaults: "option_items im_defaults = im_default_options"
  by (simp add: option_items_def im_defaults_def im_default_options_def)

lemma im_config_defaults: "im_config im_defaults"
  by (simp add: im_config_def option_items_def allowed_value_def im_options_decl_def
      im_defaults_def bools_def)

lemma im_config_linux: "im_config (options linux_recipe)"
  by (simp add: linux_recipe_def im_config_defaults)

lemma im_config_variants:
  "im_config (options turbo_recipe)" "im_config (options no_jpeg_recipe)"
  "im_config (options shared_recipe)"
  by (simp_all add: turbo_recipe_def no_jpeg_recipe_def shared_recipe_def linux_recipe_def
      im_config_def option_items_def allowed_value_def im_options_decl_def im_defaults_def
      bools_def)

subsection \<open>Reading a component back from package_info\<close>

lemma components_on_component:
  "components (on_component n f ci) m = (if m = n then f (components ci n) else components ci m)"
  by (simp add: on_component_def)

lemma libs_keep: "libs (set_property k v c) = libs c" "libs (add_requires rs c) = libs c"
  by (simp_all add: set_property_def add_requires_def)

lemma properties_keep: "properties (add_requires rs c) = properties c"
  by (simp add: add_requires_def)

lemma properties_set:
  "properties (set_property k v c) k' = (if k' = k then Some v else properties c k')"
  by (simp add: set_property_def)

lemma module_cases:
  assumes "base \<in> set modules"
  obtains "base = ''MagickCore''" | "base = ''MagickWand''" | "base = ''Magick++''"
  using assms by (auto simp add: modules_def)

lemma libs_package_info:
  assumes "base \<in> set modules"
  shows "libs (components (package_info self ci) base) = [libname self base]"
  using assms
  by (cases rule: module_cases)
    (simp_all add: package_info_def Let_def components_on_component libs_keep)

lemma pc_package_info:
  assumes "base \<in> set modules"
  shows "properties (components (package_info self ci) base) ''pkg_config_name'' =
           Some (pc_config_name self base)"
  using assms
  by (cases rule: module_cases)
    (simp_all add: package_info_def Let_def components_on_component properties_keep
      properties_set)

section \<open>Library names\<close>

text \<open>
  C1: for every option configuration of the imagemagick6 recipe and every module name in
  MagickCore, MagickWand, Magick++, the library name is the module name, a dash, the major
  version, \<^verbatim>\<open>.Q\<close>, the quantum depth in decimal, and then \<^verbatim>\<open>HDRI\<close> exactly when the hdri
  option is true; package_info leaves this name as the only entry of the component's libs.
\<close>

theorem libname_convention:
  assumes "im_config (options self)" and "base \<in> set modules"
  shows "(let suffix = (if hdri (options self) = OBool True then ''HDRI'' else '''');
              stem = base @ ''-'' @ version_major self
          in quantum_depth (options self) = OInt 8 \<and> libname self base = stem @ ''.Q8'' @ suffix \<or>
             quantum_depth (options self) = OInt 16 \<and> libname self base = stem @ ''.Q16'' @ suffix \<or>
             quantum_depth (options self) = OInt 32 \<and> libname self base = stem @ ''.Q32'' @ suffix) \<and>
         libs (components (package_info self ci) base) = [libname self base]"
proof -
  let ?opts = "options self"
  let ?stem = "base @ ''-'' @ version_major self"
  let ?suffix = "if hdri ?opts = OBool True then ''HDRI'' else ''''"
  have t: "truthy (hdri ?opts) \<longleftrightarrow> hdri ?opts = OBool True"
    using im_config_fields(1)[OF assms(1)] by (auto simp add: bools_def truthy_bool)
  consider "quantum_depth ?opts = OInt 8" | "quantum_depth ?opts = OInt 16"
    | "quantum_depth ?opts = OInt 32"
    using im_config_fields(3)[OF assms(1)] by blast
  then have
    "quantum_depth ?opts = OInt 8 \<and> libname self base = ?stem @ ''.Q8'' @ ?suffix \<or>
     quantum_depth ?opts = OInt 16 \<and> libname self base = ?stem @ ''.Q16'' @ ?suffix \<or>
     quantum_depth ?opts = OInt 32 \<and> libname self base = ?stem @ ''.Q32'' @ ?suffix"
    by cases (simp_all add: libname_def Let_def t str_int_depths)
  then show ?thesis
    using libs_package_info[OF assms(2)] by (simp add: Let_def)
qed

theorem libname_convention_witness:
  "libname linux_recipe ''Magick++'' = ''Magick++-6.Q16HDRI'' \<and>
   libs (components (package_info linux_recipe new_cpp_info) ''Magick++'') =
     [''Magick++-6.Q16HDRI'']"
proof -
  have m: "''Magick++'' \<in> set modules"
    by (simp add: modules_def)
  show ?thesis
    using libname_convention[OF im_config_linux m, of new_cpp_info]
    by (simp add: Let_def linux_recipe_def im_defaults_def)
qed

section \<open>Rejected configurations\<close>

text \<open>
  The validate half of C2: validate of the imagemagick6 recipe raises
  ConanInvalidConfiguration exactly when the os setting is Windows, whatever the other
  settings and options are, and returns in every other case. The other half of C2 speaks
  about every operation of every recipe, the vectorscan recipe among them, whose code is
  not among the sources embedded here; it is not stated.
\<close>

theorem validate_raises:
  "(validate self = Inl (ConanInvalidConfiguration windows_message) \<longleftrightarrow>
      settings self ''os'' = Some ''Windows'') \<and>
   (isl (validate self) \<longleftrightarrow> settings self ''os'' = Some ''Windows'')"
  by (simp add: validate_def setting_eq_def)

theorem validate_raises_witness:
  "validate windows_recipe = Inl (ConanInvalidConfiguration windows_message) \<and>
   validate linux_recipe = Inr []"
proof -
  have w: "settings windows_recipe ''os'' = Some ''Windows''"
    by (simp add: windows_recipe_def)
  have l: "validate linux_recipe = Inr []"
    by (simp add: validate_def setting_eq_def linux_recipe_def im_defaults_def truthy_bool)
  show ?thesis
    using validate_raises[of windows_recipe] w l by simp
qed

section \<open>Defaults\<close>

text \<open>
  C3: every default value listed in default_options of the cppcheck recipe and of the
  imagemagick6 recipe is a member of the allowed values declared for that option.
\<close>

theorem defaults_allowed:
  "list_all (allowed_value cppcheck_options_decl) cppcheck_default_options \<and>
   list_all (allowed_value im_options_decl) im_default_options"
  by (simp add: allowed_value_def cppcheck_options_decl_def cppcheck_default_options_def
      im_options_decl_def im_default_options_def bools_def)

theorem defaults_allowed_witness:
  "allowed_value im_options_decl (''with_jpeg'', OStr ''libjpeg'') \<and>
   allowed_value im_options_decl (''quantum_depth'', OInt 16) \<and>
   allowed_value cppcheck_options_decl (''have_rules'', OBool True)"
  using defaults_allowed
  by (simp add: cppcheck_default_options_def im_default_options_def)

section \<open>Configure arguments\<close>

text \<open>\<^verbatim>\<open>generate\<close> appends the list it builds to the arguments of the toolchain.\<close>

lemma generate_configure_args:
  "tc_configure_args (generate self tc) = tc_configure_args tc @ configure_args self"
  by (simp add: generate_def Let_def)

lemma generated_configure_args_eq: "generated_configure_args self tc = configure_args self"
  by (simp add: generated_configure_args_def generate_configure_args)

lemma jpeg_argument_eq:
  "jpeg_argument self tc = [''--with-jpeg='' @ yes_no (with_jpeg (options self))]"
  by (simp add: jpeg_argument_def generated_configure_args_eq configure_args_def Let_def)

lemma shared_static_arguments_eq:
  "shared_static_arguments self tc =
     [''--enable-shared='' @ yes_no (shared (options self)),
      ''--enable-static='' @ yes_no_bool (\<not> truthy (shared (options self)))]"
  by (simp add: shared_static_arguments_def generated_configure_args_eq configure_args_def
      Let_def)

text \<open>
  C4: for every option configuration of the imagemagick6 recipe, among the configure
  arguments that generate appends to the toolchain's the argument for JPEG is
  \<^verbatim>\<open>--with-jpeg=yes\<close> when with_jpeg is libjpeg or libjpeg-turbo and \<^verbatim>\<open>--with-jpeg=no\<close> when
  with_jpeg is None: the flag carries the truthiness of the option, not the name of the
  backend.
\<close>

theorem jpeg_flag:
  assumes "im_config (options self)"
  shows "tc_configure_args (generate self tc) =
           tc_configure_args tc @ generated_configure_args self tc \<and>
         (with_jpeg (options self) = OStr ''libjpeg'' \<or>
          with_jpeg (options self) = OStr ''libjpeg-turbo''
            \<longrightarrow> jpeg_argument self tc = [''--with-jpeg=yes'']) \<and>
         (with_jpeg (options self) = ONone \<longrightarrow> jpeg_argument self tc = [''--with-jpeg=no'']) \<and>
         (jpeg_argument self tc = [''--with-jpeg=yes''] \<or>
          jpeg_argument self tc = [''--with-jpeg=no''])"
proof -
  have link: "tc_configure_args (generate self tc) =
      tc_configure_args tc @ generated_configure_args self tc"
    by (simp add: generated_configure_args_eq generate_configure_args)
  have flag: "jpeg_argument self tc = [''--with-jpeg='' @ yes_no (with_jpeg (options self))]"
    by (rule jpeg_argument_eq)
  consider "with_jpeg (options self) = ONone" | "with_jpeg (options self) = OStr ''libjpeg''"
    | "with_jpeg (options self) = OStr ''libjpeg-turbo''"
    using im_config_fields(4)[OF assms] by blast
  then show ?thesis
    using link flag by cases (simp_all add: yes_no_def truthy_jpeg truthy.simps(1))
qed

theorem jpeg_flag_witness:
  "jpeg_argument linux_recipe helper_toolchain = [''--with-jpeg=yes''] \<and>
   jpeg_argument turbo_recipe helper_toolchain = [''--with-jpeg=yes''] \<and>
   jpeg_argument no_jpeg_recipe helper_toolchain = [''--with-jpeg=no''] \<and>
   take 3 (tc_configure_args (generate no_jpeg_recipe helper_toolchain)) =
     [''--prefix=/'', ''--bindir=${prefix}/bin'', ''--disable-openmp'']"
proof -
  have t: "take 3 (tc_configure_args (generate no_jpeg_recipe helper_toolchain)) =
      [''--prefix=/'', ''--bindir=${prefix}/bin'', ''--disable-openmp'']"
    by (simp add: generate_configure_args helper_toolchain_def configure_args_def Let_def)
  show ?thesis
    using jpeg_flag[OF im_config_linux, of helper_toolchain]
      jpeg_flag[OF im_config_variants(1), of helper_toolchain]
      jpeg_flag[OF im_config_variants(2), of helper_toolchain] t
    by (simp add: linux_recipe_def turbo_recipe_def no_jpeg_recipe_def im_defaults_def)
qed

text \<open>
  C9: for every option configuration of the imagemagick6 recipe the configure arguments
  that generate appends to the toolchain's hold exactly one shared flag and one static flag,
  and the two are complementary: \<^verbatim>\<open>--enable-shared=yes\<close> with \<^verbatim>\<open>--enable-static=no\<close> when
  shared is true, and \<^verbatim>\<open>--enable-shared=no\<close> with \<^verbatim>\<open>--enable-static=yes\<close> otherwise.
\<close>

theorem shared_static_complementary:
  assumes "im_config (options self)"
  shows "tc_configure_args (generate self tc) =
           tc_configure_args tc @ generated_configure_args self tc \<and>
         shared_static_arguments self tc =
           (if shared (options self) = OBool True
            then [''--enable-shared=yes'', ''--enable-static=no'']
            else [''--enable-shared=no'', ''--enable-static=yes''])"
proof -
  have link: "tc_configure_args (generate self tc) =
      tc_configure_args tc @ generated_configure_args self tc"
    by (simp add: generated_configure_args_eq generate_configure_args)
  have "shared (options self) = OBool True \<or> shared (options self) = OBool False"
    using im_config_fields(2)[OF assms] by (simp add: bools_def)
  then show ?thesis
    using link
    by (auto simp add: shared_static_arguments_eq yes_no_def yes_no_bool_def truthy_bool)
qed

theorem shared_static_complementary_witness:
  "shared_static_arguments linux_recipe helper_toolchain =
     [''--enable-shared=no'', ''--enable-static=yes''] \<and>
   shared_static_arguments shared_recipe helper_toolchain =
     [''--enable-shared=yes'', ''--enable-static=no'']"
  using shared_static_complementary[OF im_config_linux, of helper_toolchain]
    shared_static_complementary[OF im_config_variants(3), of helper_toolchain]
  by (simp add: linux_recipe_def shared_recipe_def im_defaults_def)

section \<open>Requirements\<close>

lemma opt_eq_jpeg:
  assumes "v \<in> {ONone, OStr ''libjpeg'', OStr ''libjpeg-turbo''}"
  shows "opt_eq v (OStr ''libjpeg'') \<longleftrightarrow> v = OStr ''libjpeg''"
    and "opt_eq v (OStr ''libjpeg-turbo'') \<longleftrightarrow> v = OStr ''libjpeg-turbo''"
  using assms by auto

lemma jpeg_in_requirements:
  "''libjpeg/9e'' \<in> set (requirements self) \<longleftrightarrow>
     opt_eq (with_jpeg (options self)) (OStr ''libjpeg'')"
  "''libjpeg-turbo/3.0.3'' \<in> set (requirements self) \<longleftrightarrow>
     \<not> opt_eq (with_jpeg (options self)) (OStr ''libjpeg'') \<and>
     opt_eq (with_jpeg (options self)) (OStr ''libjpeg-turbo'')"
  by (simp_all add: requirements_def Let_def mem_added_if)

lemma requirements_declared: "set (requirements self) \<subseteq> set declared_requirements"
  by (auto simp add: requirements_def Let_def mem_added_if declared_requirements_def)

lemma declared_ranges: "list_all range_ok declared_requirements"
  unfolding declared_requirements_def range_ok_def
  by (simp add: ref_name_def ref_version_def range_packages_def well_formed_range_def
      is_range_def dotted_numeric_def is_digit_def)

text \<open>
  C5: requirements of the cppcheck recipe adds \<^verbatim>\<open>pcre/8.45\<close> exactly when the have_rules
  option is true, and never adds anything else.
\<close>

theorem cppcheck_requirements_pcre:
  assumes "cppcheck_config opts"
  shows "cppcheck_requirements opts =
           (if map_of opts ''have_rules'' = Some (OBool True) then [''pcre/8.45''] else [])"
proof -
  have "map_of opts ''have_rules'' = None \<or> map_of opts ''have_rules'' = Some (OBool True)
      \<or> map_of opts ''have_rules'' = Some (OBool False)"
  proof (cases "map_of opts ''have_rules''")
    case None
    then show ?thesis by simp
  next
    case (Some v)
    then have "(''have_rules'', v) \<in> set opts"
      by (rule map_of_SomeD)
    with assms have "allowed_value cppcheck_options_decl (''have_rules'', v)"
      by (simp add: cppcheck_config_def list_all_iff)
    then show ?thesis
      using Some by (auto simp add: allowed_value_def cppcheck_options_decl_def bools_def)
  qed
  then show ?thesis
    by (auto simp add: cppcheck_requirements_def get_safe_def added_if_def truthy_bool
        truthy.simps(1))
qed

theorem cppcheck_requirements_pcre_witness:
  "cppcheck_requirements [(''have_rules'', OBool True)] = [''pcre/8.45''] \<and>
   cppcheck_requirements [(''have_rules'', OBool False)] = []"
proof -
  have c1: "cppcheck_config [(''have_rules'', OBool True)]"
    by (simp add: cppcheck_config_def allowed_value_def cppcheck_options_decl_def bools_def)
  have c2: "cppcheck_config [(''have_rules'', OBool False)]"
    by (simp add: cppcheck_config_def allowed_value_def cppcheck_options_decl_def bools_def)
  show ?thesis
    using cppcheck_requirements_pcre[OF c1] cppcheck_requirements_pcre[OF c2] by simp
qed

text \<open>
  C6: for every option configuration of the imagemagick6 recipe, requirements adds
  \<^verbatim>\<open>libjpeg/9e\<close> exactly when with_jpeg is libjpeg and \<^verbatim>\<open>libjpeg-turbo/3.0.3\<close> exactly when
  with_jpeg is libjpeg-turbo; with None it adds neither, and the two are never both added.
\<close>

theorem jpeg_requirement:
  assumes "im_config (options self)"
  shows "(''libjpeg/9e'' \<in> set (requirements self) \<longleftrightarrow>
            with_jpeg (options self) = OStr ''libjpeg'') \<and>
         (''libjpeg-turbo/3.0.3'' \<in> set (requirements self) \<longleftrightarrow>
            with_jpeg (options self) = OStr ''libjpeg-turbo'') \<and>
         (with_jpeg (options self) = ONone \<longrightarrow>
            ''libjpeg/9e'' \<notin> set (requirements self) \<and>
            ''libjpeg-turbo/3.0.3'' \<notin> set (requirements self)) \<and>
         \<not> (''libjpeg/9e'' \<in> set (requirements self) \<and>
            ''libjpeg-turbo/3.0.3'' \<in> set (requirements self))"
  using opt_eq_jpeg[OF im_config_fields(4)[OF assms]]
  by (auto simp add: jpeg_in_requirements)

theorem jpeg_requirement_witness:
  "''libjpeg/9e'' \<in> set (requirements linux_recipe) \<and>
   ''libjpeg-turbo/3.0.3'' \<notin> set (requirements linux_recipe) \<and>
   ''libjpeg/9e'' \<notin> set (requirements turbo_recipe) \<and>
   ''libjpeg-turbo/3.0.3'' \<in> set (requirements turbo_recipe) \<and>
   ''libjpeg/9e'' \<notin> set (requirements no_jpeg_recipe) \<and>
   ''libjpeg-turbo/3.0.3'' \<notin> set (requirements no_jpeg_recipe)"
  using jpeg_requirement[OF im_config_linux] jpeg_requirement[OF im_config_variants(1)]
    jpeg_requirement[OF im_config_variants(2)]
  by (simp add: linux_recipe_def turbo_recipe_def no_jpeg_recipe_def im_defaults_def)

text \<open>
  C7: every requirement the imagemagick6 recipe declares for xz_utils, libheif, openjpeg,
  libpng, libtiff or libwebp carries a well-formed version range, \<^verbatim>\<open>[>=<lower> <<upper>]\<close>
  with dotted numeric bounds; these are the only requirements written as ranges.
\<close>

theorem version_ranges_well_formed:
  assumes "r \<in> set (requirements self)"
  shows "(ref_name r \<in> set range_packages \<longrightarrow> well_formed_range (ref_version r)) \<and>
         (is_range (ref_version r) \<longrightarrow> ref_name r \<in> set range_packages)"
proof -
  from assms have "r \<in> set declared_requirements"
    using requirements_declared by blast
  with declared_ranges have "range_ok r"
    by (simp add: list_all_iff)
  then show ?thesis
    by (simp add: range_ok_def)
qed

theorem version_ranges_well_formed_witness:
  "ref_name ''xz_utils/[>=5.4.5 <6]'' = ''xz_utils'' \<and>
   ref_version ''xz_utils/[>=5.4.5 <6]'' = ''[>=5.4.5 <6]'' \<and>
   ''xz_utils/[>=5.4.5 <6]'' \<in> set (requirements linux_recipe) \<and>
   well_formed_range ''[>=5.4.5 <6]''"
proof -
  have r: "''xz_utils/[>=5.4.5 <6]'' \<in> set (requirements linux_recipe)"
    by (simp add: requirements_def Let_def mem_added_if linux_recipe_def im_defaults_def
        truthy_bool)
  have n: "ref_name ''xz_utils/[>=5.4.5 <6]'' = ''xz_utils''"
    by (simp add: ref_name_def)
  have v: "ref_version ''xz_utils/[>=5.4.5 <6]'' = ''[>=5.4.5 <6]''"
    by (simp add: ref_version_def)
  show ?thesis
    using version_ranges_well_formed[OF r] r n v by (simp add: range_packages_def)
qed

section \<open>pkg-config names\<close>

text \<open>
  C8: for every configuration of the imagemagick6 recipe whose os setting is not Windows
  (the configurations validate accepts), the pkg_config_name property that package_info
  sets on each of the three components is the library name of that component.
\<close>

theorem pkg_config_name_is_libname:
  assumes "settings self ''os'' \<noteq> Some ''Windows''" and "base \<in> set modules"
  shows "validate self \<noteq> Inl (ConanInvalidConfiguration windows_message) \<and>
         properties (components (package_info self ci) base) ''pkg_config_name'' =
           Some (libname self base)"
  using assms(1) pc_package_info[OF assms(2)]
  by (simp add: pc_config_name_def libname_def Let_def setting_eq_def validate_def)

theorem pkg_config_name_is_libname_witness:
  "properties (components (package_info linux_recipe new_cpp_info) ''MagickWand'')
     ''pkg_config_name'' = Some ''MagickWand-6.Q16HDRI'' \<and>
   libname linux_recipe ''MagickWand'' = ''MagickWand-6.Q16HDRI''"
proof -
  have os: "settings linux_recipe ''os'' \<noteq> Some ''Windows''"
    by (simp add: linux_recipe_def)
  have m: "''MagickWand'' \<in> set modules"
    by (simp add: modules_def)
  have l: "libname linux_recipe ''MagickWand'' = ''MagickWand-6.Q16HDRI''"
    by (simp add: libname_def linux_recipe_def im_defaults_def truthy_bool str_int_depths)
  show ?thesis
    using pkg_config_name_is_libname[OF os m, of new_cpp_info] l by simp
qed

section \<open>Package identity of cppcheck\<close>

lemma del_settings_agree:
  assumes "\<forall>k. \<not> under ''compiler'' k \<and> \<not> under ''build_type'' k \<longrightarrow> s1 k = s2 k"
  shows "del_setting ''build_type'' (del_setting ''compiler'' s1) =
         del_setting ''build_type'' (del_setting ''compiler'' s2)"
proof
  fix k
  show "del_setting ''build_type'' (del_setting ''compiler'' s1) k =
        del_setting ''build_type'' (del_setting ''compiler'' s2) k"
    using assms by (simp add: del_setting_def)
qed

lemma package_id_parts:
  "info_settings (package_id i) =
     del_setting ''build_type'' (del_setting ''compiler'' (info_settings i))"
  "info_options (package_id i) = info_options i"
  "info_requires (package_id i) = info_requires i"
  "pkg_info.more (package_id i) = pkg_info.more i"
  by (simp_all add: package_id_def Let_def)

lemma initial_info_parts:
  "info_settings (initial_info dep_id c) = cc_settings c"
  "info_options (initial_info dep_id c) = cc_options c"
  "info_requires (initial_info dep_id c) =
     map (\<lambda>r. (r, dep_id (cc_settings c) r)) (cppcheck_requirements (cc_options c))"
  by (simp_all add: initial_info_def)

lemma profiles_differ_only: "same_but_compiler_build_type gcc_release clang_debug"
  by (simp add: same_but_compiler_build_type_def gcc_release_def clang_debug_def under_def)

lemma profiles_no_rules_differ_only:
  "same_but_compiler_build_type gcc_release_no_rules clang_debug_no_rules"
  by (simp add: same_but_compiler_build_type_def gcc_release_no_rules_def
      clang_debug_no_rules_def gcc_release_def clang_debug_def under_def)

text \<open>
  C10 as stated fails: under the default have_rules the identity information keeps the
  requirement on pcre with the identifier of pcre's binary, and that identifier changes
  with the compiler and the build type. The two profiles below differ only in compiler and
  build_type, and package_id leaves different identity information for them.
\<close>

theorem package_id_dependent_counterexample:
  "same_but_compiler_build_type gcc_release clang_debug \<and>
   package_id (initial_info compiled_dep_id gcc_release) \<noteq>
     package_id (initial_info compiled_dep_id clang_debug) \<and>
   package_identifier id compiled_dep_id gcc_release \<noteq>
     package_identifier id compiled_dep_id clang_debug"
proof -
  have r1: "info_requires (package_id (initial_info compiled_dep_id gcc_release)) =
      [(''pcre/8.45'', ''gcc-Release'')]"
    by (simp add: package_id_parts initial_info_parts gcc_release_def cppcheck_requirements_def
        get_safe_def added_if_def truthy_bool compiled_dep_id_def setting_text_def)
  have r2: "info_requires (package_id (initial_info compiled_dep_id clang_debug)) =
      [(''pcre/8.45'', ''clang-Debug'')]"
    by (simp add: package_id_parts initial_info_parts clang_debug_def cppcheck_requirements_def
        get_safe_def added_if_def truthy_bool compiled_dep_id_def setting_text_def)
  have ne: "package_id (initial_info compiled_dep_id gcc_release) \<noteq>
      package_id (initial_info compiled_dep_id clang_debug)"
  proof
    assume "package_id (initial_info compiled_dep_id gcc_release) =
      package_id (initial_info compiled_dep_id clang_debug)"
    then have "info_requires (package_id (initial_info compiled_dep_id gcc_release)) =
        info_requires (package_id (initial_info compiled_dep_id clang_debug))"
      by simp
    then show False
      by (simp add: r1 r2)
  qed
  then show ?thesis
    using profiles_differ_only by (simp add: package_identifier_def)
qed

text \<open>
  C10, amended: for two configurations of the cppcheck recipe that differ only in the
  compiler and build_type settings, the identity information package_id leaves has the same
  settings and the same options, because package_id deletes both settings; the package
  identifier is the same whenever the requires part of the identity information is the
  same for both, and so whenever have_rules is false and nothing is required.
\<close>

theorem package_id_independent:
  assumes "same_but_compiler_build_type c1 c2"
  shows "info_settings (package_id (initial_info dep_id c1)) =
           info_settings (package_id (initial_info dep_id c2)) \<and>
         info_options (package_id (initial_info dep_id c1)) =
           info_options (package_id (initial_info dep_id c2)) \<and>
         (info_requires (initial_info dep_id c1) = info_requires (initial_info dep_id c2) \<longrightarrow>
            package_identifier digest dep_id c1 = package_identifier digest dep_id c2) \<and>
         (\<not> truthy (get_safe (cc_options c1) ''have_rules'') \<longrightarrow>
            package_identifier digest dep_id c1 = package_identifier digest dep_id c2)"
proof -
  let ?i1 = "initial_info dep_id c1" and ?i2 = "initial_info dep_id c2"
  have opts: "cc_options c1 = cc_options c2"
    using assms by (simp add: same_but_compiler_build_type_def)
  have s: "info_settings (package_id ?i1) = info_settings (package_id ?i2)"
    using assms
    by (simp add: package_id_parts initial_info_parts same_but_compiler_build_type_def
        del_settings_agree)
  have o: "info_options (package_id ?i1) = info_options (package_id ?i2)"
    using opts by (simp add: package_id_parts initial_info_parts)
  have same: "package_id ?i1 = package_id ?i2" if "info_requires ?i1 = info_requires ?i2"
    using s o that by (intro pkg_info.equality) (simp_all add: package_id_parts)
  have none: "info_requires ?i1 = info_requires ?i2"
    if "\<not> truthy (get_safe (cc_options c1) ''have_rules'')"
    using that opts by (simp add: initial_info_parts cppcheck_requirements_def added_if_def)
  show ?thesis
    using s o same none by (auto simp add: package_identifier_def)
qed

theorem package_id_independent_witness:
  "cc_settings gcc_release ''compiler'' \<noteq> cc_settings clang_debug ''compiler'' \<and>
   cc_settings gcc_release ''build_type'' \<noteq> cc_settings clang_debug ''build_type'' \<and>
   info_settings (package_id (initial_info compiled_dep_id gcc_release)) =
     info_settings (package_id (initial_info compiled_dep_id clang_debug)) \<and>
   info_settings (package_id (initial_info compiled_dep_id gcc_release)) ''os'' = Some ''Linux'' \<and>
   info_settings (package_id (initial_info compiled_dep_id gcc_release)) ''compiler'' = None \<and>
   package_identifier id compiled_dep_id gcc_release_no_rules =
     package_identifier id compiled_dep_id clang_debug_no_rules"
proof -
  have d: "cc_settings gcc_release ''compiler'' \<noteq> cc_settings clang_debug ''compiler'' \<and>
      cc_settings gcc_release ''build_type'' \<noteq> cc_settings clang_debug ''build_type''"
    by (simp add: gcc_release_def clang_debug_def)
  have e: "info_settings (package_id (initial_info compiled_dep_id gcc_release)) =
      info_settings (package_id (initial_info compiled_dep_id clang_debug))"
    using package_id_independent[OF profiles_differ_only, of compiled_dep_id id]
    by (rule conjunct1)
  have k: "info_settings (package_id (initial_info compiled_dep_id gcc_release)) ''os'' =
        Some ''Linux'' \<and>
      info_settings (package_id (initial_info compiled_dep_id gcc_release)) ''compiler'' = None"
    by (simp add: package_id_parts initial_info_parts gcc_release_def del_setting_def under_def)
  have f: "\<not> truthy (get_safe (cc_options gcc_release_no_rules) ''have_rules'')"
    by (simp add: gcc_release_no_rules_def gcc_release_def get_safe_def truthy_bool)
  have n: "package_identifier id compiled_dep_id gcc_release_no_rules =
      package_identifier id compiled_dep_id clang_debug_no_rules"
    using package_id_independent[OF profiles_no_rules_differ_only, of compiled_dep_id id] f
    by blast
  show ?thesis
    using d e k n by blast
qed

end
